theory Spec2Isabelle
  imports Complex_Main "HOL-Library.Multiset"
begin

section \<open>Statistics store\<close>

text \<open>
  The quiz of \<^verbatim>\<open>src/App.jsx\<close> keeps, for every county, three counters. They start
  at \<open>0\<close> (\<^verbatim>\<open>defaultStats\<close>) and every write of the program adds \<open>1\<close> to one of
  them, so they are natural numbers. The statistics table is a JavaScript object indexed
  by county name: a partial map. JavaScript numbers are doubles; the counters are small
  integers, which doubles represent exactly, and the weights computed from them are
  modelled by exact arithmetic over the reals.
\<close>

record RegionStat =
  seen :: nat
  correct :: nat
  wrong :: nat

type_synonym StatsTable = "string \<rightharpoonup> RegionStat"

definition defaultStats :: RegionStat where
  "defaultStats = \<lparr>seen = 0, correct = 0, wrong = 0\<rparr>"

text \<open>\<^verbatim>\<open>stats[county] ?? {...defaultStats}\<close>\<close>

definition ensureStats :: "StatsTable \<Rightarrow> string \<Rightarrow> RegionStat" where
  "ensureStats stats county = (case stats county of Some entry \<Rightarrow> entry | None \<Rightarrow> defaultStats)"

text \<open>
  Errors of the JavaScript run time that the program can meet: a property read on
  \<^verbatim>\<open>undefined\<close>, a parse error of \<^verbatim>\<open>JSON.parse\<close>, a refused access to the
  storage.
\<close>

datatype js_error = TypeError | SyntaxError | SecurityError

subsection \<open>Loading\<close>

text \<open>
  What \<^verbatim>\<open>JSON.parse\<close> can return. \<^verbatim>\<open>typeof\<close> answers \<^verbatim>\<open>"object"\<close> for
  objects, arrays and \<^verbatim>\<open>null\<close>; \<^verbatim>\<open>null\<close>, \<^verbatim>\<open>false\<close>, \<^verbatim>\<open>0\<close> and the
  empty string are falsy.
\<close>

datatype json =
    JNull
  | JBool bool
  | JNumber real
  | JString string
  | JArray "json list"
  | JObject "(string \<times> json) list"

fun json_typeof :: "json \<Rightarrow> string" where
  "json_typeof JNull = ''object''"
| "json_typeof (JBool _) = ''boolean''"
| "json_typeof (JNumber _) = ''number''"
| "json_typeof (JString _) = ''string''"
| "json_typeof (JArray _) = ''object''"
| "json_typeof (JObject _) = ''object''"

fun json_truthy :: "json \<Rightarrow> bool" where
  "json_truthy JNull = False"
| "json_truthy (JBool b) = b"
| "json_truthy (JNumber x) = (x \<noteq> 0)"
| "json_truthy (JString s) = (s \<noteq> [])"
| "json_truthy (JArray _) = True"
| "json_truthy (JObject _) = True"

text \<open>
  The body of the \<^verbatim>\<open>try\<close> block of \<^verbatim>\<open>loadStats\<close>. \<open>getItem\<close> is the outcome of
  \<^verbatim>\<open>window.localStorage.getItem(STORAGE_KEY)\<close>: an exception, \<^verbatim>\<open>null\<close>
  (\<open>None\<close>) or the stored text. \<open>parse\<close> is \<^verbatim>\<open>JSON.parse\<close>, which returns a value
  or throws.
\<close>

definition loadStats_try ::
  "(js_error + string option) \<Rightarrow> (string \<Rightarrow> js_error + json) \<Rightarrow> js_error + json" where
  "loadStats_try getItem parse =
     (case getItem of
        Inl e \<Rightarrow> Inl e
      | Inr None \<Rightarrow> Inr (JObject [])
      | Inr (Some raw) \<Rightarrow>
          if raw = [] then Inr (JObject [])
          else (case parse raw of
                  Inl e \<Rightarrow> Inl e
                | Inr parsed \<Rightarrow>
                    Inr (if json_truthy parsed \<and> json_typeof parsed = ''object''
                         then parsed else JObject [])))"

text \<open>
  \<^verbatim>\<open>loadStats\<close>: no window, no table; otherwise the \<^verbatim>\<open>try\<close> block, and the
  \<^verbatim>\<open>catch\<close> turns every exception into the empty object.
\<close>

definition loadStats ::
  "bool \<Rightarrow> (js_error + string option) \<Rightarrow> (string \<Rightarrow> js_error + json) \<Rightarrow> js_error + json" where
  "loadStats window_defined getItem parse =
     (if \<not> window_defined then Inr (JObject [])
      else (case loadStats_try getItem parse of
              Inl _ \<Rightarrow> Inr (JObject [])
            | Inr table \<Rightarrow> Inr table))"

section \<open>Weighted selector\<close>

text \<open>
  \<^verbatim>\<open>previous && county === previous\<close>: \<open>previous\<close> is \<^verbatim>\<open>null\<close> (\<open>None\<close>) or a
  county name, and the empty name is falsy as \<^verbatim>\<open>null\<close> is.
\<close>

definition weightForCounty :: "StatsTable \<Rightarrow> string \<Rightarrow> string option \<Rightarrow> real" where
  "weightForCounty stats county previous =
     (let entry = ensureStats stats county;
          attempts = correct entry + wrong entry;
          seen_count = seen entry
      in if attempts = 0 then 6.5
         else
           let missRate = real (wrong entry) / real attempts;
               freshnessBoost = 1 / real (seen_count + 1);
               weight = 1 + missRate * 4 + freshnessBoost;
               weight = (if seen_count = 0 then weight + 0.4 else weight);
               weight = (if previous \<noteq> None \<and> previous \<noteq> Some [] \<and> Some county = previous
                         then weight * 0.6 else weight)
           in weight)"

text \<open>\<^verbatim>\<open>COUNTIES.map(...)\<close>: the catalog \<open>COUNTIES\<close> is a parameter of the model.\<close>

definition weighted_counties ::
  "string list \<Rightarrow> StatsTable \<Rightarrow> string option \<Rightarrow> (string \<times> real) list" where
  "weighted_counties COUNTIES stats previous =
     map (\<lambda>county. (county, weightForCounty stats county previous)) COUNTIES"

text \<open>\<^verbatim>\<open>weighted.reduce((sum, item) => sum + item.weight, 0)\<close>\<close>

definition totalWeight :: "(string \<times> real) list \<Rightarrow> real" where
  "totalWeight weighted = foldl (\<lambda>sum item. sum + snd item) 0 weighted"

text \<open>
  The \<^verbatim>\<open>for\<close> loop of \<^verbatim>\<open>pickNextCounty\<close>: \<open>None\<close> when the loop ends without
  returning.
\<close>

fun pick_loop :: "(string \<times> real) list \<Rightarrow> real \<Rightarrow> string option" where
  "pick_loop [] threshold = None"
| "pick_loop ((county, weight) # rest) threshold =
     (if threshold - weight \<le> 0 then Some county else pick_loop rest (threshold - weight))"

text \<open>
  \<^verbatim>\<open>pickNextCounty\<close>, with the value \<open>r\<close> of \<^verbatim>\<open>Math.random()\<close> as an argument. The
  fallback reads \<^verbatim>\<open>weighted[weighted.length - 1].county\<close>, which throws a
  \<^verbatim>\<open>TypeError\<close> on an empty catalog.
\<close>

definition pickNextCounty ::
  "string list \<Rightarrow> StatsTable \<Rightarrow> string option \<Rightarrow> real \<Rightarrow> js_error + string" where
  "pickNextCounty COUNTIES stats previous r =
     (let weighted = weighted_counties COUNTIES stats previous;
          threshold = r * totalWeight weighted
      in case pick_loop weighted threshold of
           Some county \<Rightarrow> Inr county
         | None \<Rightarrow> (if weighted = [] then Inl TypeError else Inr (fst (last weighted))))"

subsection \<open>Persisting and presenting\<close>

text \<open>
  The persistence store as this program writes it: \<open>stored\<close> is the table whose JSON
  text the last \<^verbatim>\<open>setItem\<close> put under the storage key, \<open>window_present\<close> says
  whether \<^verbatim>\<open>window\<close> exists. \<^verbatim>\<open>setItem\<close> is taken to succeed.
\<close>

record storage =
  window_present :: bool
  stored :: "StatsTable option"

definition persistStats :: "StatsTable \<Rightarrow> storage \<Rightarrow> storage" where
  "persistStats stats st = (if \<not> window_present st then st else st\<lparr>stored := Some stats\<rparr>)"

text \<open>\<^verbatim>\<open>applyNextCounty\<close> returns the new session \<open>(stats, currentCounty)\<close> and the store.\<close>

definition applyNextCounty ::
  "StatsTable \<Rightarrow> string \<Rightarrow> storage \<Rightarrow> (StatsTable \<times> string) \<times> storage" where
  "applyNextCounty stats nextCounty st =
     (let nextEntry = ensureStats stats nextCounty;
          statsWithSeen = stats(nextCounty \<mapsto> nextEntry\<lparr>seen := seen nextEntry + 1\<rparr>)
      in ((statsWithSeen, nextCounty), persistStats statsWithSeen st))"

definition advanceCounty ::
  "string list \<Rightarrow> StatsTable \<Rightarrow> string option \<Rightarrow> real \<Rightarrow> storage
     \<Rightarrow> js_error + ((StatsTable \<times> string) \<times> storage)" where
  "advanceCounty COUNTIES stats previousCounty r st =
     (case pickNextCounty COUNTIES stats previousCounty r of
        Inl e \<Rightarrow> Inl e
      | Inr nextCounty \<Rightarrow> Inr (applyNextCounty stats nextCounty st))"

section \<open>Shuffling\<close>

text \<open>
  \<^verbatim>\<open>shuffle\<close> copies its argument and walks \<open>index\<close> from the last position down
  to \<open>1\<close>, swapping the entry at \<open>index\<close> with the one at
  \<^verbatim>\<open>Math.floor(Math.random() * (index + 1))\<close>. \<open>rnd index\<close> is the value that
  \<^verbatim>\<open>Math.random()\<close> returns in the round for \<open>index\<close>; \<^verbatim>\<open>Math.random()\<close> lies
  in \<open>[0, 1)\<close>, which keeps the swap position in range.
\<close>

definition unit_draw :: "real \<Rightarrow> bool" where
  "unit_draw r = (0 \<le> r \<and> r < 1)"

fun shuffle_loop :: "(nat \<Rightarrow> real) \<Rightarrow> nat \<Rightarrow> 'a list \<Rightarrow> 'a list" where
  "shuffle_loop rnd 0 copy = copy"
| "shuffle_loop rnd (Suc i) copy =
     (let swapIndex = nat \<lfloor>rnd (Suc i) * real (Suc i + 1)\<rfloor>;
          holder = copy ! Suc i
      in shuffle_loop rnd i (copy[Suc i := copy ! swapIndex, swapIndex := holder]))"

definition shuffle :: "(nat \<Rightarrow> real) \<Rightarrow> 'a list \<Rightarrow> 'a list" where
  "shuffle rnd values = shuffle_loop rnd (length values - 1) values"

section \<open>Test summary messages\<close>

text \<open>
  The table \<^verbatim>\<open>TEST_MESSAGES\<close>. The source writes a typographic apostrophe and a long
  dash in some messages; they stand here as their UTF-8 bytes.
\<close>

record bucket =
  threshold :: int
  messages :: "string list"












section \<open>The application state\<close>

text \<open>
  The component \<^verbatim>\<open>App\<close> holds its state in React state variables and refs. One
  record holds them all, together with the parts of the browser that the handlers read
  and write: the ids of the paths inside the map container (\<open>None\<close> while
  \<^verbatim>\<open>svgRef.current\<close> is \<^verbatim>\<open>null\<close>), the console and the persistence store.
  \<open>revealedRef\<close> holds the id of the path that carries the reveal styling. The CSS
  classes and the inline styles of the paths are not modelled, nor is the history stack.
\<close>

datatype feedback_type = Success | Error

datatype log_level = Warn | Debug

text \<open>The field \<^verbatim>\<open>correct\<close> of a test result is \<open>result_correct\<close> here.\<close>

record TestResult =
  result_correct :: nat
  total :: nat
  percent :: int
  durationMs :: int

record app_state =
  stats :: StatsTable
  currentCounty :: string
  feedback :: string
  feedbackType :: "feedback_type option"
  selectedCountyName :: string
  isRevealed :: bool
  revealedRef :: "string option"
  isStatsOpen :: bool
  statsHistoryFlag :: bool
  isTestMode :: bool
  testQueue :: "string list"
  testCorrect :: nat
  testStartTime :: "int option"
  testResult :: "TestResult option"
  testCorrectRef :: nat
  svgContainer :: "string list option"
  console :: "(log_level \<times> string) list"
  store :: storage

text \<open>
  What a handler draws from outside during one event: \<^verbatim>\<open>Date.now()\<close>, the value of
  \<^verbatim>\<open>Math.random()\<close> in \<^verbatim>\<open>pickNextCounty\<close>, and its values in \<^verbatim>\<open>shuffle\<close>.
\<close>

record inputs =
  clock :: int
  random_pick :: real
  random_shuffle :: "nat \<Rightarrow> real"

text \<open>
  A handler is a closure of the last render: it reads the state variables as they were
  rendered (the argument \<open>snap\<close>), reads and writes refs at once, and queues its state
  updates, which apply in order (the argument \<open>s\<close>, returned updated). An exception
  leaves the handler as \<open>Inl\<close>.
\<close>

definition clearHighlights :: "app_state \<Rightarrow> app_state" where
  "clearHighlights s = (case svgContainer s of None \<Rightarrow> s | Some _ \<Rightarrow> s\<lparr>revealedRef := None\<rparr>)"

text \<open>\<^verbatim>\<open>setState((prev) => advanceCounty(prev.stats, prev.currentCounty))\<close>\<close>

definition set_state_advance :: "string list \<Rightarrow> real \<Rightarrow> app_state \<Rightarrow> js_error + app_state" where
  "set_state_advance COUNTIES r s =
     (case advanceCounty COUNTIES (stats s) (Some (currentCounty s)) r (store s) of
        Inl e \<Rightarrow> Inl e
      | Inr ((new_stats, new_county), new_store) \<Rightarrow>
          Inr (s\<lparr>stats := new_stats, currentCounty := new_county, store := new_store\<rparr>))"

text \<open>\<^verbatim>\<open>setState((prev) => applyNextCounty(prev.stats, nextCounty))\<close>\<close>

definition set_state_apply :: "string \<Rightarrow> app_state \<Rightarrow> app_state" where
  "set_state_apply nextCounty s =
     (case applyNextCounty (stats s) nextCounty (store s) of
        ((new_stats, new_county), new_store) \<Rightarrow>
          s\<lparr>stats := new_stats, currentCounty := new_county, store := new_store\<rparr>)"

definition finishTest ::
  "string list \<Rightarrow> inputs \<Rightarrow> app_state \<Rightarrow> nat \<Rightarrow> bool \<Rightarrow> app_state \<Rightarrow> js_error + app_state" where
  "finishTest COUNTIES inp snap finalCorrect skipAdvance s =
     (let duration = (case testStartTime snap of
                        None \<Rightarrow> 0
                      | Some t \<Rightarrow> if t = 0 then 0 else clock inp - t);
          s = clearHighlights s;
          s = s\<lparr>isTestMode := False, testQueue := [], testStartTime := None,
                testCorrectRef := finalCorrect, testCorrect := finalCorrect\<rparr>;
          percent_value = (if length COUNTIES = 0 then 0
                           else round (real finalCorrect / real (length COUNTIES) * 100));
          s = s\<lparr>testResult := Some \<lparr>result_correct = finalCorrect, total = length COUNTIES,
                                     percent = percent_value, durationMs = duration\<rparr>,
                isRevealed := False, feedback := [], feedbackType := None,
                selectedCountyName := []\<rparr>
      in if skipAdvance then Inr s else set_state_advance COUNTIES (random_pick inp) s)"

definition handleCorrect ::
  "string list \<Rightarrow> inputs \<Rightarrow> app_state \<Rightarrow> string \<Rightarrow> app_state \<Rightarrow> js_error + app_state" where
  "handleCorrect COUNTIES inp snap county s =
     (let countyStats = ensureStats (stats s) county;
          updatedStats = (stats s)(county \<mapsto> countyStats\<lparr>correct := correct countyStats + 1\<rparr>);
          s = s\<lparr>stats := updatedStats, store := persistStats updatedStats (store s)\<rparr>;
          nextCorrect = testCorrectRef s + 1;
          s = (if isTestMode snap
               then s\<lparr>testCorrectRef := nextCorrect, testCorrect := nextCorrect\<rparr> else s)
      in if isTestMode snap \<and> length (testQueue snap) \<le> 1
         then finishTest COUNTIES inp snap nextCorrect False s
         else Inr (s\<lparr>feedback := ''Correct!'', feedbackType := Some Success,
                     isRevealed := True\<rparr>))"

definition handleIncorrect ::
  "string list \<Rightarrow> inputs \<Rightarrow> app_state \<Rightarrow> string \<Rightarrow> string \<Rightarrow> app_state
     \<Rightarrow> js_error + app_state" where
  "handleIncorrect COUNTIES inp snap county guess s =
     (let countyStats = ensureStats (stats s) county;
          updatedStats = (stats s)(county \<mapsto> countyStats\<lparr>wrong := wrong countyStats + 1\<rparr>);
          s = s\<lparr>stats := updatedStats, store := persistStats updatedStats (store s)\<rparr>
      in if isTestMode snap \<and> length (testQueue snap) \<le> 1
         then finishTest COUNTIES inp snap (testCorrectRef s) False s
         else Inr (s\<lparr>feedback := ''That was '' @ guess @ ''. Try again.'',
                     feedbackType := Some Error, isRevealed := False\<rparr>))"

text \<open>
  \<^verbatim>\<open>getCountyPath\<close> returns the path with the id \<open>county\<close>, or \<^verbatim>\<open>null\<close> (with a
  warning on the console when the container has no such path).
\<close>

definition getCountyPath :: "string \<Rightarrow> app_state \<Rightarrow> string option \<times> app_state" where
  "getCountyPath county s =
     (if county = [] then (None, s)
      else (case svgContainer s of
              None \<Rightarrow> (None, s)
            | Some ids \<Rightarrow>
                if county \<in> set ids then (Some county, s)
                else (None, s\<lparr>console := console s @
                        [(Warn, ''[map] County path not found for id: '' @ county)]\<rparr>)))"

definition startTestMode ::
  "string list \<Rightarrow> inputs \<Rightarrow> app_state \<Rightarrow> app_state \<Rightarrow> app_state" where
  "startTestMode COUNTIES inp snap s =
     (let order = shuffle (random_shuffle inp) COUNTIES
      in if length order = 0 then s
         else
           let s = clearHighlights s;
               s = (if isStatsOpen snap
                    then s\<lparr>statsHistoryFlag := False, isStatsOpen := False\<rparr> else s);
               s = s\<lparr>isTestMode := True, testQueue := order, testCorrectRef := 0,
                     testCorrect := 0, testStartTime := Some (clock inp), testResult := None,
                     selectedCountyName := [], feedback := [], feedbackType := None,
                     isRevealed := False\<rparr>
           in set_state_apply (order ! 0) s)"

definition cancelTestMode ::
  "string list \<Rightarrow> inputs \<Rightarrow> app_state \<Rightarrow> js_error + app_state" where
  "cancelTestMode COUNTIES inp s =
     (let s = clearHighlights s;
          s = s\<lparr>isTestMode := False, testQueue := [], testCorrectRef := 0, testCorrect := 0,
                testStartTime := None, testResult := None, selectedCountyName := [],
                feedback := [], feedbackType := None, isRevealed := False\<rparr>
      in set_state_advance COUNTIES (random_pick inp) s)"

definition handleTestButton ::
  "string list \<Rightarrow> inputs \<Rightarrow> app_state \<Rightarrow> app_state \<Rightarrow> js_error + app_state" where
  "handleTestButton COUNTIES inp snap s =
     (if isTestMode snap then cancelTestMode COUNTIES inp s
      else Inr (startTestMode COUNTIES inp snap s))"

definition closeTestResult :: "app_state \<Rightarrow> app_state" where
  "closeTestResult s =
     s\<lparr>testResult := None, testCorrectRef := 0, testCorrect := 0, testQueue := [],
       testStartTime := None, selectedCountyName := []\<rparr>"

definition openStats :: "app_state \<Rightarrow> app_state \<Rightarrow> app_state" where
  "openStats snap s =
     (if isStatsOpen snap then s
      else s\<lparr>statsHistoryFlag := window_present (store s), isStatsOpen := True\<rparr>)"

definition closeStats :: "bool \<Rightarrow> app_state \<Rightarrow> app_state \<Rightarrow> app_state" where
  "closeStats skipHistory snap s =
     (if \<not> isStatsOpen snap then s
      else
        let s = s\<lparr>isStatsOpen := False\<rparr>
        in if \<not> skipHistory \<and> statsHistoryFlag s \<and> window_present (store s)
           then s\<lparr>statsHistoryFlag := False\<rparr> else s)"

definition handlePop :: "app_state \<Rightarrow> app_state \<Rightarrow> app_state" where
  "handlePop snap s =
     (if isStatsOpen snap then closeStats True snap (s\<lparr>statsHistoryFlag := False\<rparr>) else s)"

text \<open>
  \<^verbatim>\<open>handleMapClick\<close>: \<open>target\<close> is the id of the path that was clicked, \<open>None\<close> for
  a click outside every path.
\<close>

definition handleMapClick ::
  "string list \<Rightarrow> inputs \<Rightarrow> app_state \<Rightarrow> string option \<Rightarrow> app_state \<Rightarrow> js_error + app_state" where
  "handleMapClick COUNTIES inp snap target s =
     (case target of
        None \<Rightarrow> Inr s
      | Some guess \<Rightarrow>
          if guess \<notin> set COUNTIES then Inr s
          else if isRevealed snap
          then Inr (s\<lparr>selectedCountyName := (if guess = currentCounty snap then [] else guess)\<rparr>)
          else
            let s = clearHighlights s
            in if currentCounty snap = [] then Inr s
               else if guess = currentCounty snap
               then handleCorrect COUNTIES inp snap (currentCounty snap)
                      (s\<lparr>selectedCountyName := []\<rparr>)
               else handleIncorrect COUNTIES inp snap (currentCounty snap) guess
                      (s\<lparr>selectedCountyName := []\<rparr>))"

text \<open>
  \<^verbatim>\<open>handleShowOrNext\<close>: the button reads "Next" when the answer is revealed and "Show"
  otherwise.
\<close>

definition handleShowOrNext ::
  "string list \<Rightarrow> inputs \<Rightarrow> app_state \<Rightarrow> app_state \<Rightarrow> js_error + app_state" where
  "handleShowOrNext COUNTIES inp snap s =
     (if currentCounty snap = [] then Inr s
      else if isRevealed snap
      then
        let s = clearHighlights s
        in if isTestMode snap
           then
             if length (testQueue snap) \<le> 1
             then finishTest COUNTIES inp snap (testCorrectRef s) False s
             else
               let remaining = drop 1 (testQueue snap);
                   nextCounty = remaining ! 0;
                   s = set_state_apply nextCounty (s\<lparr>testQueue := remaining\<rparr>)
               in Inr (s\<lparr>isRevealed := False, feedback := [], feedbackType := None,
                          selectedCountyName := []\<rparr>)
           else
             (case set_state_advance COUNTIES (random_pick inp) s of
                Inl e \<Rightarrow> Inl e
              | Inr s \<Rightarrow> Inr (s\<lparr>isRevealed := False, feedback := [], feedbackType := None,
                                 selectedCountyName := []\<rparr>))
      else
        let currentStats = ensureStats (stats s) (currentCounty snap);
            updatedStats = (stats s)(currentCounty snap \<mapsto>
                              currentStats\<lparr>wrong := wrong currentStats + 1\<rparr>);
            s = s\<lparr>stats := updatedStats, store := persistStats updatedStats (store s)\<rparr>;
            s = clearHighlights s;
            s = s\<lparr>feedback := [], feedbackType := None\<rparr>
        in (case getCountyPath (currentCounty snap) s of
              (None, s) \<Rightarrow> Inr s
            | (Some node, s) \<Rightarrow>
                Inr (s\<lparr>revealedRef := Some node,
                       console := console s @ [(Debug, ''[map] Revealed '' @ currentCounty snap)],
                       selectedCountyName := [], isRevealed := True\<rparr>)))"

subsection \<open>Derived values of a render\<close>

definition completedTestCount :: "string list \<Rightarrow> app_state \<Rightarrow> int" where
  "completedTestCount COUNTIES s = int (length COUNTIES) - int (length (testQueue s))"

definition testProgressPercent :: "string list \<Rightarrow> app_state \<Rightarrow> int" where
  "testProgressPercent COUNTIES s =
     (let rawTestProgress =
            (if isTestMode s \<and> length COUNTIES > 0
             then round (real_of_int (completedTestCount COUNTIES s) / real (length COUNTIES) * 100)
             else 0)
      in min 100 (max 0 rawTestProgress))"


subsection \<open>Events\<close>

text \<open>
  The effects that run after a render: the ref of the test score follows the state
  variable, and a change of the current county clears the transient display state.
\<close>

definition afterRender :: "app_state \<Rightarrow> app_state \<Rightarrow> app_state" where
  "afterRender snap s =
     (let s = (if testCorrect s \<noteq> testCorrect snap then s\<lparr>testCorrectRef := testCorrect s\<rparr> else s)
      in if currentCounty s \<noteq> currentCounty snap
         then (clearHighlights s)\<lparr>isRevealed := False, feedback := [], feedbackType := None,
                                   selectedCountyName := []\<rparr>
         else s)"

text \<open>
  The user's actions. The buttons of the summary dialog exist only while a test result
  is shown. \<open>TestAgain\<close> is the dialog's second button, which closes the result and
  starts a test.
\<close>

datatype event =
    MapClick "string option"
  | ShowOrNext
  | TestButton
  | CloseTestResult
  | TestAgain
  | OpenStats
  | CloseStats
  | PopState

definition handle_event ::
  "string list \<Rightarrow> inputs \<Rightarrow> event \<Rightarrow> app_state \<Rightarrow> js_error + app_state" where
  "handle_event COUNTIES inp ev s =
     (case ev of
        MapClick target \<Rightarrow> handleMapClick COUNTIES inp s target s
      | ShowOrNext \<Rightarrow> handleShowOrNext COUNTIES inp s s
      | TestButton \<Rightarrow> handleTestButton COUNTIES inp s s
      | CloseTestResult \<Rightarrow> Inr (if testResult s = None then s else closeTestResult s)
      | TestAgain \<Rightarrow>
          Inr (if testResult s = None then s
               else startTestMode COUNTIES inp s (closeTestResult s))
      | OpenStats \<Rightarrow> Inr (openStats s s)
      | CloseStats \<Rightarrow> Inr (closeStats False s s)
      | PopState \<Rightarrow> Inr (handlePop s s))"

definition dispatch ::
  "string list \<Rightarrow> inputs \<Rightarrow> event \<Rightarrow> app_state \<Rightarrow> js_error + app_state" where
  "dispatch COUNTIES inp ev s =
     (case handle_event COUNTIES inp ev s of
        Inl e \<Rightarrow> Inl e
      | Inr s' \<Rightarrow> Inr (afterRender s s'))"

fun run :: "string list \<Rightarrow> (event \<times> inputs) list \<Rightarrow> app_state \<Rightarrow> js_error + app_state" where
  "run COUNTIES [] s = Inr s"
| "run COUNTIES ((ev, inp) # rest) s =
     (case dispatch COUNTIES inp ev s of
        Inl e \<Rightarrow> Inl e
      | Inr s' \<Rightarrow> run COUNTIES rest s')"

section \<open>Test runs\<close>

text \<open>
  A test run starts with \<^verbatim>\<open>startTestMode\<close> and lasts while \<open>isTestMode\<close> holds.
  \<open>in_run order k s\<close> says that \<open>s\<close> is a state of a run over the shuffled catalog
  \<open>order\<close> in which \<open>k\<close> prompts have been left behind: the queue is the rest of
  \<open>order\<close> from position \<open>k\<close> on, and its first entry is the current prompt.
\<close>

definition in_run :: "string list \<Rightarrow> nat \<Rightarrow> app_state \<Rightarrow> bool" where
  "in_run order k s =
     (isTestMode s \<and> testResult s = None \<and> k < length order \<and>
      testQueue s = drop k order \<and> currentCounty s = order ! k)"

text \<open>The events of a run: every action but the two that start or cancel a test.\<close>

definition run_events :: "(event \<times> inputs) list \<Rightarrow> bool" where
  "run_events evs = (\<forall>e \<in> set evs. fst e \<noteq> TestButton \<and> fst e \<noteq> TestAgain)"

text \<open>
  The regions presented along a sequence of events: the current prompt of every state
  the sequence passes through, the first and the last included.
\<close>

fun run_prompts :: "string list \<Rightarrow> (event \<times> inputs) list \<Rightarrow> app_state \<Rightarrow> string list" where
  "run_prompts COUNTIES [] s = [currentCounty s]"
| "run_prompts COUNTIES ((ev, inp) # rest) s =
     currentCounty s #
     (case dispatch COUNTIES inp ev s of
        Inl e \<Rightarrow> []
      | Inr s' \<Rightarrow> run_prompts COUNTIES rest s')"

text \<open>
  The queue in the words of the specification: the regions of the start order that have
  not yet been presented, in that order.
\<close>

definition queue_as_claimed :: "string list \<Rightarrow> string list \<Rightarrow> string list" where
  "queue_as_claimed order presented = filter (\<lambda>county. county \<notin> set presented) order"

section \<open>Example states\<close>

text \<open>
  A catalog of two counties. \<open>quiz_example\<close> is an ordinary session that has just
  presented Kent for the first time; \<open>test_example\<close> is the state that the "Test me"
  button leads to from there when every random draw is \<open>0\<close>, which shuffles the
  catalog to Essex, Kent.
\<close>

definition example_catalog :: "string list" where
  "example_catalog = [''Kent'', ''Essex'']"

definition example_inputs :: inputs where
  "example_inputs = \<lparr>clock = 5000, random_pick = 0, random_shuffle = (\<lambda>index. 0)\<rparr>"

definition quiz_example :: app_state where
  "quiz_example =
     \<lparr>stats = [''Kent'' \<mapsto> \<lparr>seen = 1, correct = 0, wrong = 0\<rparr>],
      currentCounty = ''Kent'', feedback = [], feedbackType = None, selectedCountyName = [],
      isRevealed = False, revealedRef = None, isStatsOpen = False, statsHistoryFlag = False,
      isTestMode = False, testQueue = [], testCorrect = 0, testStartTime = None,
      testResult = None, testCorrectRef = 0, svgContainer = Some [''Kent'', ''Essex''],
      console = [],
      store = \<lparr>window_present = True,
               stored = Some [''Kent'' \<mapsto> \<lparr>seen = 1, correct = 0, wrong = 0\<rparr>]\<rparr>\<rparr>"

definition test_example :: app_state where
  "test_example =
     \<lparr>stats = [''Kent'' \<mapsto> \<lparr>seen = 1, correct = 0, wrong = 0\<rparr>,
               ''Essex'' \<mapsto> \<lparr>seen = 1, correct = 0, wrong = 0\<rparr>],
      currentCounty = ''Essex'', feedback = [], feedbackType = None, selectedCountyName = [],
      isRevealed = False, revealedRef = None, isStatsOpen = False, statsHistoryFlag = False,
      isTestMode = True, testQueue = [''Essex'', ''Kent''], testCorrect = 0,
      testStartTime = Some 5000, testResult = None, testCorrectRef = 0,
      svgContainer = Some [''Kent'', ''Essex''], console = [],
      store = \<lparr>window_present = True,
               stored = Some [''Kent'' \<mapsto> \<lparr>seen = 1, correct = 0, wrong = 0\<rparr>,
                              ''Essex'' \<mapsto> \<lparr>seen = 1, correct = 0, wrong = 0\<rparr>]\<rparr>\<rparr>"

text \<open>Observing a field of the state a handler returns; \<open>None\<close> after an exception.\<close>

definition outcome :: "js_error + app_state \<Rightarrow> (app_state \<Rightarrow> 'a) \<Rightarrow> 'a option" where
  "outcome res observe = (case res of Inl _ \<Rightarrow> None | Inr s \<Rightarrow> Some (observe s))"

definition entry_of :: "string \<Rightarrow> app_state \<Rightarrow> RegionStat" where
  "entry_of county s = ensureStats (stats s) county"

section \<open>Properties of the statistics store\<close>

lemma loadStats_array_kept:
  "raw \<noteq> [] \<Longrightarrow> parse raw = Inr (JArray xs) \<Longrightarrow>
   loadStats True (Inr (Some raw)) parse = Inr (JArray xs)"
  by (simp add: loadStats_def loadStats_try_def)



section \<open>Properties of the weighted selector\<close>

lemma weightForCounty_empty_name:
  "weightForCounty table [] (Some []) = weightForCounty table [] None"
  by (simp add: weightForCounty_def Let_def)

text \<open>
  Claim C1. For a region (a non-empty name) whose entry has \<open>correct + wrong > 0\<close>, the
  weight is \<open>1 + 4 * (wrong / attempts) + 1 / (seen + 1)\<close>, plus \<open>0.4\<close> when
  \<open>seen = 0\<close>, and the sum is multiplied by \<open>0.6\<close> when the region is the previous
  one.
\<close>

theorem weightForCounty_attempted:
  assumes "e = ensureStats table county"
    and "0 < correct e + wrong e"
    and "county \<noteq> []"
  shows "weightForCounty table county previous =
     (1 + 4 * (real (wrong e) / real (correct e + wrong e)) + 1 / real (seen e + 1)
        + (if seen e = 0 then 0.4 else 0))
     * (if previous = Some county then 0.6 else 1)"
  using assms by (auto simp: weightForCounty_def Let_def)

theorem weightForCounty_attempted_witness:
  "weightForCounty [''Kent'' \<mapsto> \<lparr>seen = 0, correct = 1, wrong = 3\<rparr>] ''Kent'' (Some ''Kent'') = 3.24
   \<and> weightForCounty [''Kent'' \<mapsto> \<lparr>seen = 3, correct = 1, wrong = 3\<rparr>] ''Kent'' None = 4.25"
  using weightForCounty_attempted [of "\<lparr>seen = 0, correct = 1, wrong = 3\<rparr>"
      "[''Kent'' \<mapsto> \<lparr>seen = 0, correct = 1, wrong = 3\<rparr>]" "''Kent''" "Some ''Kent''"]
    weightForCounty_attempted [of "\<lparr>seen = 3, correct = 1, wrong = 3\<rparr>"
      "[''Kent'' \<mapsto> \<lparr>seen = 3, correct = 1, wrong = 3\<rparr>]" "''Kent''" "None"]
  by (simp add: ensureStats_def)

text \<open>
  Claim C6, as stated, asks for \<open>6.5 + 0.4\<close> when a region without attempts has also
  never been seen. A region that is absent from the table has no attempts and was never
  seen, and its weight is \<open>6.5\<close>.
\<close>

theorem weightForCounty_unseen_counterexample:
  "correct (ensureStats Map.empty ''Kent'') + wrong (ensureStats Map.empty ''Kent'') = 0 \<and>
   seen (ensureStats Map.empty ''Kent'') = 0 \<and>
   weightForCounty Map.empty ''Kent'' None = 6.5 \<and>
   weightForCounty Map.empty ''Kent'' None \<noteq> 6.5 + 0.4"
  by (simp add: weightForCounty_def ensureStats_def defaultStats_def)

text \<open>
  Claim C6, amended. For a region whose entry has \<open>correct + wrong = 0\<close> the weight is
  exactly \<open>6.5\<close>, whatever its \<open>seen\<close> counter is and whether or not it is the previous
  region.
\<close>

theorem weightForCounty_unattempted:
  assumes "correct (ensureStats table county) + wrong (ensureStats table county) = 0"
  shows "weightForCounty table county previous = 6.5"
  using assms by (simp add: weightForCounty_def Let_def)

theorem weightForCounty_unattempted_witness:
  "weightForCounty [''Kent'' \<mapsto> \<lparr>seen = 0, correct = 0, wrong = 0\<rparr>] ''Kent'' (Some ''Kent'') = 6.5
   \<and> weightForCounty [''Kent'' \<mapsto> \<lparr>seen = 2, correct = 0, wrong = 0\<rparr>] ''Kent'' None = 6.5"
  using weightForCounty_unattempted [of "[''Kent'' \<mapsto> \<lparr>seen = 0, correct = 0, wrong = 0\<rparr>]"
      "''Kent''" "Some ''Kent''"]
    weightForCounty_unattempted [of "[''Kent'' \<mapsto> \<lparr>seen = 2, correct = 0, wrong = 0\<rparr>]"
      "''Kent''" "None"]
  by (simp add: ensureStats_def)

lemma weightForCounty_lower: "0.6 < weightForCounty table county previous"
proof -
  let ?e = "ensureStats table county"
  show ?thesis
  proof (cases "correct ?e + wrong ?e = 0")
    case True
    then show ?thesis by (simp add: weightForCounty_def Let_def)
  next
    case False
    have m: "0 \<le> real (wrong ?e) / real (correct ?e + wrong ?e) * 4" by simp
    have f: "0 < 1 / real (seen ?e + 1)" by simp
    have b: "1 < 1 + real (wrong ?e) / real (correct ?e + wrong ?e) * 4 + 1 / real (seen ?e + 1)"
      using m f by linarith
    show ?thesis using False b
      by (auto simp: weightForCounty_def Let_def)
  qed
qed

lemma pick_loop_member: "pick_loop ws t = Some c \<Longrightarrow> c \<in> fst ` set ws"
  by (induction ws t rule: pick_loop.induct) (auto split: if_splits)

lemma foldl_weight_shift:
  "foldl (\<lambda>sum item. sum + snd item) a ws = a + foldl (\<lambda>sum item. sum + snd item) (0::real) ws"
proof (induction ws arbitrary: a)
  case Nil
  show ?case by simp
next
  case (Cons w ws)
  show ?case using Cons.IH [of "a + snd w"] Cons.IH [of "snd w"] by simp
qed

lemma totalWeight_positive:
  assumes "ws \<noteq> []" and "\<forall>w \<in> set ws. 0 < snd w"
  shows "0 < totalWeight ws"
  using assms
proof (induction ws)
  case Nil
  then show ?case by simp
next
  case (Cons w ws)
  show ?case
  proof (cases "ws = []")
    case True
    then show ?thesis using Cons.prems by (simp add: totalWeight_def)
  next
    case False
    then have "0 < totalWeight ws" using Cons by simp
    moreover have "totalWeight (w # ws) = snd w + totalWeight ws"
      using foldl_weight_shift [of "snd w" ws] by (simp add: totalWeight_def)
    ultimately show ?thesis using Cons.prems by simp
  qed
qed

lemma pickNextCounty_member:
  assumes "COUNTIES \<noteq> []"
  shows "\<exists>county \<in> set COUNTIES. pickNextCounty COUNTIES table previous r = Inr county"
proof -
  let ?ws = "weighted_counties COUNTIES table previous"
  have fst_ws: "fst ` set ?ws = set COUNTIES"
    by (force simp: weighted_counties_def)
  have ne: "?ws \<noteq> []" using assms by (simp add: weighted_counties_def)
  show ?thesis
  proof (cases "pick_loop ?ws (r * totalWeight ?ws)")
    case None
    have "fst (last ?ws) \<in> fst ` set ?ws" using ne by simp
    then show ?thesis using None ne fst_ws by (simp add: pickNextCounty_def Let_def)
  next
    case (Some c)
    then have "c \<in> set COUNTIES" using pick_loop_member fst_ws by blast
    then show ?thesis using Some by (simp add: pickNextCounty_def Let_def)
  qed
qed

text \<open>
  Claim C10. Every weight is strictly positive, and at least \<open>0.6\<close>, for every table and
  every previous region or none (the counters are natural numbers). Over a non-empty
  catalog the total weight is strictly positive, and \<^verbatim>\<open>pickNextCounty\<close> returns a
  member of the catalog for every value of the random draw.
\<close>

theorem pickNextCounty_total:
  assumes "COUNTIES \<noteq> []"
  shows "(\<forall>county. 0 < weightForCounty table county previous \<and>
                    0.6 \<le> weightForCounty table county previous) \<and>
         0 < totalWeight (weighted_counties COUNTIES table previous) \<and>
         (\<exists>county \<in> set COUNTIES. pickNextCounty COUNTIES table previous r = Inr county)"
proof -
  have w: "0.6 < weightForCounty table county previous" for county
    by (rule weightForCounty_lower)
  have pos: "0 < weightForCounty table county previous" for county
    using w [of county] by simp
  have "\<forall>w \<in> set (weighted_counties COUNTIES table previous). 0 < snd w"
    using pos by (auto simp: weighted_counties_def)
  moreover have "weighted_counties COUNTIES table previous \<noteq> []"
    using assms by (simp add: weighted_counties_def)
  ultimately have "0 < totalWeight (weighted_counties COUNTIES table previous)"
    using totalWeight_positive by blast
  moreover have "0.6 \<le> weightForCounty table county previous" for county
    using w [of county] by simp
  ultimately show ?thesis
    using pos pickNextCounty_member [OF assms] by blast
qed

theorem pickNextCounty_total_witness:
  "[''Kent'', ''Essex''] \<noteq> [] \<and>
   0 < totalWeight (weighted_counties [''Kent'', ''Essex''] Map.empty None) \<and>
   pickNextCounty [''Kent'', ''Essex''] Map.empty None 0.6 = Inr ''Essex''"
  using pickNextCounty_total [of "[''Kent'', ''Essex'']" Map.empty None "0.6"]
  by (simp add: pickNextCounty_def weighted_counties_def totalWeight_def weightForCounty_def
      ensureStats_def defaultStats_def)



section \<open>Properties of the shuffle and of the summary messages\<close>

lemma shuffle_loop_length: "length (shuffle_loop rnd i xs) = length xs"
  by (induction i arbitrary: xs) (simp_all add: Let_def)

lemma shuffle_length: "length (shuffle rnd xs) = length xs"
  by (simp add: shuffle_def shuffle_loop_length)

lemma swap_index_bound:
  assumes "unit_draw r"
  shows "nat \<lfloor>r * real (Suc i + 1)\<rfloor> \<le> Suc i"
proof -
  have "r * real (Suc i + 1) < real (Suc i + 1)"
    using assms by (simp add: unit_draw_def)
  then have "\<lfloor>r * real (Suc i + 1)\<rfloor> < int (Suc i + 1)"
    by (simp add: floor_less_iff)
  then show ?thesis by linarith
qed

lemma shuffle_loop_mset:
  assumes "\<forall>j. unit_draw (rnd j)"
  shows "i < length xs \<Longrightarrow> mset (shuffle_loop rnd i xs) = mset xs"
proof (induction i arbitrary: xs)
  case 0
  show ?case by simp
next
  case (Suc i)
  let ?j = "nat \<lfloor>rnd (Suc i) * real (Suc i + 1)\<rfloor>"
  let ?ys = "xs[Suc i := xs ! ?j, ?j := xs ! Suc i]"
  have j: "?j < length xs" using swap_index_bound [of "rnd (Suc i)" i] assms Suc.prems by force
  have "mset ?ys = mset xs" using mset_swap [OF j Suc.prems] by simp
  moreover have "mset (shuffle_loop rnd i ?ys) = mset ?ys"
    using Suc.IH [of ?ys] Suc.prems by simp
  ultimately show ?case by (simp add: Let_def)
qed

lemma shuffle_mset:
  assumes "\<forall>j. unit_draw (rnd j)"
  shows "mset (shuffle rnd xs) = mset xs"
proof (cases xs)
  case Nil
  then show ?thesis by (simp add: shuffle_def)
next
  case (Cons x rest)
  then have "length xs - 1 < length xs" by simp
  then show ?thesis using shuffle_loop_mset [OF assms] by (simp add: shuffle_def)
qed








section \<open>Properties of the handlers\<close>

lemmas handler_defs = handle_event_def dispatch_def handleMapClick_def handleCorrect_def
  handleIncorrect_def handleShowOrNext_def handleTestButton_def startTestMode_def
  cancelTestMode_def finishTest_def closeTestResult_def openStats_def closeStats_def
  handlePop_def getCountyPath_def set_state_apply_def set_state_advance_def
  advanceCounty_def applyNextCounty_def persistStats_def clearHighlights_def afterRender_def

lemmas eval_defs = handler_defs pickNextCounty_def weighted_counties_def totalWeight_def
  weightForCounty_def ensureStats_def defaultStats_def shuffle_def outcome_def entry_of_def
  quiz_example_def test_example_def example_catalog_def
  example_inputs_def Let_def

lemma test_example_reached:
  "dispatch example_catalog example_inputs TestButton quiz_example = Inr test_example"
  by (simp add: eval_defs)

lemma correct_seen_update [simp]:
  "correct (ensureStats (t(c \<mapsto> (ensureStats t c)\<lparr>seen := n\<rparr>)) x) = correct (ensureStats t x)"
  by (simp add: ensureStats_def)

lemma wrong_seen_update [simp]:
  "wrong (ensureStats (t(c \<mapsto> (ensureStats t c)\<lparr>seen := n\<rparr>)) x) = wrong (ensureStats t x)"
  by (simp add: ensureStats_def)

lemma afterRender_stats [simp]: "stats (afterRender snap s) = stats s"
  by (simp add: afterRender_def Let_def clearHighlights_def split: option.splits)

lemma afterRender_currentCounty [simp]: "currentCounty (afterRender snap s) = currentCounty s"
  by (simp add: afterRender_def Let_def clearHighlights_def split: option.splits)

lemma afterRender_isTestMode [simp]: "isTestMode (afterRender snap s) = isTestMode s"
  by (simp add: afterRender_def Let_def clearHighlights_def split: option.splits)

lemma afterRender_testQueue [simp]: "testQueue (afterRender snap s) = testQueue s"
  by (simp add: afterRender_def Let_def clearHighlights_def split: option.splits)

lemma afterRender_isRevealed [simp]:
  "isRevealed (afterRender snap s) = (isRevealed s \<and> currentCounty s = currentCounty snap)"
  by (simp add: afterRender_def Let_def clearHighlights_def split: option.splits)

lemma clearHighlights_frame [simp]:
  "stats (clearHighlights s) = stats s"
  "currentCounty (clearHighlights s) = currentCounty s"
  "isTestMode (clearHighlights s) = isTestMode s"
  "testQueue (clearHighlights s) = testQueue s"
  "isRevealed (clearHighlights s) = isRevealed s"
  "testCorrectRef (clearHighlights s) = testCorrectRef s"
  "testResult (clearHighlights s) = testResult s"
  by (simp_all add: clearHighlights_def split: option.splits)

lemma afterRender_testResult [simp]: "testResult (afterRender snap s) = testResult s"
  by (simp add: afterRender_def Let_def clearHighlights_def split: option.splits)

lemma in_run_afterRender [simp]: "in_run order k (afterRender snap s) = in_run order k s"
  by (simp add: in_run_def)

lemma set_state_advance_total:
  assumes "COUNTIES \<noteq> []"
  shows "\<exists>chosen \<in> set COUNTIES.
     pickNextCounty COUNTIES (stats s) (Some (currentCounty s)) r = Inr chosen \<and>
     set_state_advance COUNTIES r s =
       Inr (s\<lparr>stats := (stats s)(chosen \<mapsto> (ensureStats (stats s) chosen)
                    \<lparr>seen := seen (ensureStats (stats s) chosen) + 1\<rparr>),
              currentCounty := chosen,
              store := persistStats ((stats s)(chosen \<mapsto> (ensureStats (stats s) chosen)
                    \<lparr>seen := seen (ensureStats (stats s) chosen) + 1\<rparr>)) (store s)\<rparr>)"
proof -
  obtain chosen where n: "chosen \<in> set COUNTIES"
    "pickNextCounty COUNTIES (stats s) (Some (currentCounty s)) r = Inr chosen"
    using pickNextCounty_member [OF assms] by blast
  show ?thesis using n
    by (auto simp: set_state_advance_def advanceCounty_def applyNextCounty_def Let_def)
qed

lemma finishTest_testResult:
  assumes "COUNTIES \<noteq> []"
  shows "\<exists>s'. finishTest COUNTIES inp snap finalCorrect skipAdvance s = Inr s' \<and>
     testResult s' = Some \<lparr>result_correct = finalCorrect, total = length COUNTIES,
        percent = round (real finalCorrect / real (length COUNTIES) * 100),
        durationMs = (case testStartTime snap of None \<Rightarrow> 0
                      | Some t \<Rightarrow> if t = 0 then 0 else clock inp - t)\<rparr> \<and>
     \<not> isTestMode s' \<and> testQueue s' = [] \<and> \<not> isRevealed s' \<and>
     testCorrect s' = finalCorrect \<and> testCorrectRef s' = finalCorrect \<and>
     (skipAdvance \<longrightarrow> stats s' = stats s \<and> currentCounty s' = currentCounty s) \<and>
     (\<not> skipAdvance \<longrightarrow> (\<exists>chosen \<in> set COUNTIES.
        pickNextCounty COUNTIES (stats s) (Some (currentCounty s)) (random_pick inp) = Inr chosen \<and>
        currentCounty s' = chosen \<and>
        stats s' = (stats s)(chosen \<mapsto> (ensureStats (stats s) chosen)
                    \<lparr>seen := seen (ensureStats (stats s) chosen) + 1\<rparr>)))"
proof -
  let ?d = "(case testStartTime snap of None \<Rightarrow> 0
                      | Some t \<Rightarrow> if t = 0 then 0 else clock inp - t)"
  let ?s1 = "(clearHighlights s)\<lparr>isTestMode := False, testQueue := [], testStartTime := None,
                testCorrectRef := finalCorrect, testCorrect := finalCorrect,
              testResult := Some \<lparr>result_correct = finalCorrect, total = length COUNTIES,
                  percent = round (real finalCorrect / real (length COUNTIES) * 100), durationMs = ?d\<rparr>,
                isRevealed := False, feedback := [], feedbackType := None,
                selectedCountyName := []\<rparr>"
  have st: "stats ?s1 = stats s" "currentCounty ?s1 = currentCounty s"
    by (simp_all add: clearHighlights_def split: option.splits)
  have f: "finishTest COUNTIES inp snap finalCorrect skipAdvance s =
      (if skipAdvance then Inr ?s1 else set_state_advance COUNTIES (random_pick inp) ?s1)"
    using assms by (simp add: finishTest_def Let_def)
  show ?thesis
  proof (cases skipAdvance)
    case True
    then show ?thesis using f st by simp
  next
    case False
    obtain chosen where n: "chosen \<in> set COUNTIES"
      "pickNextCounty COUNTIES (stats ?s1) (Some (currentCounty ?s1)) (random_pick inp) = Inr chosen"
      and adv: "set_state_advance COUNTIES (random_pick inp) ?s1 =
       Inr (?s1\<lparr>stats := (stats ?s1)(chosen \<mapsto> (ensureStats (stats ?s1) chosen)
                    \<lparr>seen := seen (ensureStats (stats ?s1) chosen) + 1\<rparr>),
              currentCounty := chosen,
              store := persistStats ((stats ?s1)(chosen \<mapsto> (ensureStats (stats ?s1) chosen)
                    \<lparr>seen := seen (ensureStats (stats ?s1) chosen) + 1\<rparr>)) (store ?s1)\<rparr>)"
      using set_state_advance_total [OF assms, of ?s1 "random_pick inp"] by blast
    show ?thesis using False f adv n st by auto
  qed
qed



lemma guess_keeps_seen:
  assumes "\<not> (isTestMode snap \<and> length (testQueue snap) \<le> 1)"
  shows "handleCorrect COUNTIES inp snap county s = Inr s' \<Longrightarrow>
           seen (ensureStats (stats s') x) = seen (ensureStats (stats s) x)"
    and "handleIncorrect COUNTIES inp snap county guess s = Inr s' \<Longrightarrow>
           seen (ensureStats (stats s') x) = seen (ensureStats (stats s) x)"
  using assms
  by (auto simp: handleCorrect_def handleIncorrect_def Let_def ensureStats_def)






text \<open>
  Claim C7, as stated, lets a cancelled run keep its score and present no new prompt.
  From \<open>test_example\<close>, a right guess brings the score to \<open>1\<close> with Essex as the
  prompt; cancelling then sets the score to \<open>0\<close> and presents Kent, whose \<open>seen\<close>
  counter goes from \<open>1\<close> to \<open>2\<close>.
\<close>

theorem cancelTestMode_counterexample:
  "outcome (dispatch example_catalog example_inputs (MapClick (Some ''Essex'')) test_example)
      testCorrect = Some 1 \<and>
   outcome (dispatch example_catalog example_inputs (MapClick (Some ''Essex'')) test_example)
      currentCounty = Some ''Essex'' \<and>
   outcome (dispatch example_catalog example_inputs (MapClick (Some ''Essex'')) test_example)
      (entry_of ''Kent'') = Some \<lparr>seen = 1, correct = 0, wrong = 0\<rparr> \<and>
   outcome (run example_catalog
      [(MapClick (Some ''Essex''), example_inputs), (TestButton, example_inputs)] test_example)
      testCorrect = Some 0 \<and>
   outcome (run example_catalog
      [(MapClick (Some ''Essex''), example_inputs), (TestButton, example_inputs)] test_example)
      currentCounty = Some ''Kent'' \<and>
   outcome (run example_catalog
      [(MapClick (Some ''Essex''), example_inputs), (TestButton, example_inputs)] test_example)
      (entry_of ''Kent'') = Some \<lparr>seen = 2, correct = 0, wrong = 0\<rparr>"
  by (simp add: eval_defs)

text \<open>
  Claim C7, amended. Cancelling a test run (the test button during a run) shows no test
  result, leaves test mode, empties the queue, resets the score to \<open>0\<close> and at once
  presents a new ordinary prompt: the region that the weighted selector picks with the
  cancelled prompt as the previous region, whose \<open>seen\<close> counter goes up by one.
\<close>

theorem cancelTestMode_advances:
  assumes "isTestMode s" and "COUNTIES \<noteq> []"
  shows "\<exists>s' chosen. dispatch COUNTIES inp TestButton s = Inr s' \<and>
     testResult s' = None \<and> \<not> isTestMode s' \<and> testQueue s' = [] \<and>
     testCorrect s' = 0 \<and> testCorrectRef s' = 0 \<and> testStartTime s' = None \<and>
     \<not> isRevealed s' \<and>
     pickNextCounty COUNTIES (stats s) (Some (currentCounty s)) (random_pick inp) = Inr chosen \<and>
     chosen \<in> set COUNTIES \<and>
     currentCounty s' = chosen \<and>
     stats s' = (stats s)(chosen \<mapsto> (ensureStats (stats s) chosen)
                    \<lparr>seen := seen (ensureStats (stats s) chosen) + 1\<rparr>)"
proof -
  let ?s1 = "(clearHighlights s)\<lparr>isTestMode := False, testQueue := [], testCorrectRef := 0, testCorrect := 0,
                testStartTime := None, testResult := None, selectedCountyName := [],
                feedback := [], feedbackType := None, isRevealed := False\<rparr>"
  have st: "stats ?s1 = stats s" "currentCounty ?s1 = currentCounty s"
    by (simp_all add: clearHighlights_def split: option.splits)
  obtain chosen where n: "chosen \<in> set COUNTIES"
    "pickNextCounty COUNTIES (stats ?s1) (Some (currentCounty ?s1)) (random_pick inp) = Inr chosen"
    and adv: "set_state_advance COUNTIES (random_pick inp) ?s1 =
       Inr (?s1\<lparr>stats := (stats ?s1)(chosen \<mapsto> (ensureStats (stats ?s1) chosen)
                    \<lparr>seen := seen (ensureStats (stats ?s1) chosen) + 1\<rparr>),
              currentCounty := chosen,
              store := persistStats ((stats ?s1)(chosen \<mapsto> (ensureStats (stats ?s1) chosen)
                    \<lparr>seen := seen (ensureStats (stats ?s1) chosen) + 1\<rparr>)) (store ?s1)\<rparr>)"
    using set_state_advance_total [OF assms(2), of ?s1 "random_pick inp"] by blast
  have "dispatch COUNTIES inp TestButton s = Inr (afterRender s (?s1\<lparr>stats := (stats ?s1)(chosen \<mapsto> (ensureStats (stats ?s1) chosen)
                    \<lparr>seen := seen (ensureStats (stats ?s1) chosen) + 1\<rparr>),
              currentCounty := chosen,
              store := persistStats ((stats ?s1)(chosen \<mapsto> (ensureStats (stats ?s1) chosen)
                    \<lparr>seen := seen (ensureStats (stats ?s1) chosen) + 1\<rparr>)) (store ?s1)\<rparr>))"
    using assms(1) adv
    by (simp add: dispatch_def handle_event_def handleTestButton_def cancelTestMode_def Let_def)
  then show ?thesis using n st
    by (auto simp: afterRender_def Let_def clearHighlights_def split: option.splits)
qed

theorem cancelTestMode_advances_witness:
  "outcome (dispatch example_catalog example_inputs TestButton test_example) testResult = Some None \<and>
   outcome (dispatch example_catalog example_inputs TestButton test_example) testCorrect = Some 0 \<and>
   outcome (dispatch example_catalog example_inputs TestButton test_example) currentCounty
     = Some ''Kent'' \<and>
   outcome (dispatch example_catalog example_inputs TestButton test_example) (entry_of ''Kent'')
     = Some \<lparr>seen = 2, correct = 0, wrong = 0\<rparr>"
  using cancelTestMode_advances [of test_example example_catalog example_inputs]
  by (simp add: eval_defs)

text \<open>
  Claim C9, as stated, leaves the statistics table unchanged when the element of the
  current region is missing. With Kent as the prompt and a map that has no path for
  Kent, "Show" adds \<open>1\<close> to the \<open>wrong\<close> counter of Kent.
\<close>

theorem reveal_missing_element_counterexample:
  "entry_of ''Kent'' (quiz_example\<lparr>svgContainer := Some [''Essex'']\<rparr>)
     = \<lparr>seen = 1, correct = 0, wrong = 0\<rparr> \<and>
   outcome (dispatch example_catalog example_inputs ShowOrNext
      (quiz_example\<lparr>svgContainer := Some [''Essex'']\<rparr>)) (entry_of ''Kent'')
     = Some \<lparr>seen = 1, correct = 0, wrong = 1\<rparr> \<and>
   outcome (dispatch example_catalog example_inputs ShowOrNext
      (quiz_example\<lparr>svgContainer := Some [''Essex'']\<rparr>)) isRevealed = Some False"
  by (simp add: eval_defs)

text \<open>
  Claim C9, amended. When "Show" is pressed while Prompting and the map has no element
  for the current region, the \<open>wrong\<close> counter of the current region still goes up by
  one and the table is persisted; a warning is logged, nothing is marked, the feedback
  is cleared, and the session does not enter Revealed. Nothing else changes.
\<close>

theorem reveal_missing_element:
  assumes "\<not> isRevealed s" and "currentCounty s \<noteq> []"
    and "svgContainer s = Some ids" and "currentCounty s \<notin> set ids"
  shows "dispatch COUNTIES inp ShowOrNext s =
     Inr (s\<lparr>stats := (stats s)(currentCounty s \<mapsto>
                (ensureStats (stats s) (currentCounty s))
                  \<lparr>wrong := wrong (ensureStats (stats s) (currentCounty s)) + 1\<rparr>),
            store := persistStats ((stats s)(currentCounty s \<mapsto>
                (ensureStats (stats s) (currentCounty s))
                  \<lparr>wrong := wrong (ensureStats (stats s) (currentCounty s)) + 1\<rparr>)) (store s),
            revealedRef := None, feedback := [], feedbackType := None,
            console := console s @ [(Warn, ''[map] County path not found for id: '' @ currentCounty s)]\<rparr>)"
  using assms
  by (simp add: dispatch_def handle_event_def handleShowOrNext_def Let_def clearHighlights_def
      getCountyPath_def afterRender_def)

theorem reveal_missing_element_witness:
  "outcome (dispatch example_catalog example_inputs ShowOrNext
      (quiz_example\<lparr>svgContainer := Some [''Essex'']\<rparr>)) isRevealed = Some False \<and>
   outcome (dispatch example_catalog example_inputs ShowOrNext
      (quiz_example\<lparr>svgContainer := Some [''Essex'']\<rparr>)) (entry_of ''Kent'')
     = Some \<lparr>seen = 1, correct = 0, wrong = 1\<rparr> \<and>
   outcome (dispatch example_catalog example_inputs ShowOrNext
      (quiz_example\<lparr>svgContainer := Some [''Essex'']\<rparr>)) console
     = Some [(Warn, ''[map] County path not found for id: Kent'')]"
  using reveal_missing_element [of "quiz_example\<lparr>svgContainer := Some [''Essex'']\<rparr>"
      "[''Essex'']" example_catalog example_inputs]
  by (simp add: eval_defs)

section \<open>Properties of a test run\<close>

lemma guess_run:
  assumes "COUNTIES \<noteq> []"
  shows "\<exists>s'. handleCorrect COUNTIES inp snap county s = Inr s' \<and>
     (if isTestMode snap \<and> length (testQueue snap) \<le> 1 then \<not> isTestMode s'
      else isTestMode s' = isTestMode s \<and> testQueue s' = testQueue s \<and>
           currentCounty s' = currentCounty s \<and> testResult s' = testResult s)"
    and "\<exists>s'. handleIncorrect COUNTIES inp snap county guess s = Inr s' \<and>
     (if isTestMode snap \<and> length (testQueue snap) \<le> 1 then \<not> isTestMode s'
      else isTestMode s' = isTestMode s \<and> testQueue s' = testQueue s \<and>
           currentCounty s' = currentCounty s \<and> testResult s' = testResult s)"
proof -
  show "\<exists>s'. handleCorrect COUNTIES inp snap county s = Inr s' \<and>
     (if isTestMode snap \<and> length (testQueue snap) \<le> 1 then \<not> isTestMode s'
      else isTestMode s' = isTestMode s \<and> testQueue s' = testQueue s \<and>
           currentCounty s' = currentCounty s \<and> testResult s' = testResult s)"
  proof (cases "isTestMode snap \<and> length (testQueue snap) \<le> 1")
    case True
    then show ?thesis
      using finishTest_testResult [OF assms, of inp snap]
      by (simp add: handleCorrect_def Let_def) blast
  next
    case False
    then show ?thesis by (auto simp: handleCorrect_def Let_def)
  qed
  show "\<exists>s'. handleIncorrect COUNTIES inp snap county guess s = Inr s' \<and>
     (if isTestMode snap \<and> length (testQueue snap) \<le> 1 then \<not> isTestMode s'
      else isTestMode s' = isTestMode s \<and> testQueue s' = testQueue s \<and>
           currentCounty s' = currentCounty s \<and> testResult s' = testResult s)"
  proof (cases "isTestMode snap \<and> length (testQueue snap) \<le> 1")
    case True
    then show ?thesis
      using finishTest_testResult [OF assms, of inp snap]
      by (simp add: handleIncorrect_def Let_def) blast
  next
    case False
    then show ?thesis by (auto simp: handleIncorrect_def Let_def)
  qed
qed

lemma handleMapClick_run:
  assumes "COUNTIES \<noteq> []"
  shows "\<exists>s'. handleMapClick COUNTIES inp s target s = Inr s' \<and>
     (\<not> isTestMode s' \<or>
      (isTestMode s' = isTestMode s \<and> testQueue s' = testQueue s \<and>
       currentCounty s' = currentCounty s \<and> testResult s' = testResult s))"
proof (cases target)
  case None
  then show ?thesis by (simp add: handleMapClick_def)
next
  case (Some guess)
  let ?s0 = "(clearHighlights s)\<lparr>selectedCountyName := []\<rparr>"
  consider (skip) "guess \<notin> set COUNTIES \<or> isRevealed s \<or> currentCounty s = []"
    | (right) "guess \<in> set COUNTIES" "\<not> isRevealed s" "currentCounty s \<noteq> []" "guess = currentCounty s"
    | (miss) "guess \<in> set COUNTIES" "\<not> isRevealed s" "currentCounty s \<noteq> []" "guess \<noteq> currentCounty s"
    by blast
  then show ?thesis
  proof cases
    case skip
    then show ?thesis using Some by (auto simp: handleMapClick_def Let_def)
  next
    case right
    then have "handleMapClick COUNTIES inp s target s =
        handleCorrect COUNTIES inp s (currentCounty s) ?s0"
      using Some by (simp add: handleMapClick_def Let_def)
    then show ?thesis
      using guess_run(1) [OF assms, of inp s "currentCounty s" ?s0]
      by (auto split: if_splits)
  next
    case miss
    then have "handleMapClick COUNTIES inp s target s =
        handleIncorrect COUNTIES inp s (currentCounty s) guess ?s0"
      using Some by (simp add: handleMapClick_def Let_def)
    then show ?thesis
      using guess_run(2) [OF assms, of inp s "currentCounty s" guess ?s0]
      by (auto split: if_splits)
  qed
qed

lemma handleShowOrNext_run:
  assumes "COUNTIES \<noteq> []" and "in_run order k s"
  shows "\<exists>s'. handleShowOrNext COUNTIES inp s s = Inr s' \<and>
     (\<not> isTestMode s' \<or> in_run order k s' \<or> in_run order (Suc k) s')"
proof -
  consider (no_county) "currentCounty s = []"
    | (last_item) "currentCounty s \<noteq> []" "isRevealed s" "length (testQueue s) \<le> 1"
    | (next_item) "currentCounty s \<noteq> []" "isRevealed s" "\<not> length (testQueue s) \<le> 1"
    | (reveal) "currentCounty s \<noteq> []" "\<not> isRevealed s"
    by blast
  then show ?thesis
  proof cases
    case no_county
    then show ?thesis using assms(2) by (simp add: handleShowOrNext_def)
  next
    case last_item
    then have "handleShowOrNext COUNTIES inp s s =
        finishTest COUNTIES inp s (testCorrectRef s) False (clearHighlights s)"
      using assms(2) by (simp add: handleShowOrNext_def Let_def in_run_def)
    then show ?thesis
      using finishTest_testResult [OF assms(1), of inp s "testCorrectRef s" False "clearHighlights s"]
      by auto
  next
    case next_item
    have len: "Suc k < length order" using next_item(3) assms(2) by (simp add: in_run_def)
    have rem: "drop 1 (testQueue s) = drop (Suc k) order" using assms(2) by (simp add: in_run_def)
    have nth: "drop (Suc k) order ! 0 = order ! Suc k" using len by simp
    show ?thesis using next_item assms(2) len rem nth
      by (simp add: handleShowOrNext_def Let_def in_run_def set_state_apply_def
          applyNextCounty_def)
  next
    case reveal
    then show ?thesis using assms(2)
      by (auto simp: handleShowOrNext_def Let_def in_run_def getCountyPath_def
          split: option.splits)
  qed
qed

lemma dispatch_in_run:
  assumes "COUNTIES \<noteq> []" and "in_run order k s" and "ev \<noteq> TestButton" and "ev \<noteq> TestAgain"
  shows "\<exists>s'. dispatch COUNTIES inp ev s = Inr s' \<and>
     (\<not> isTestMode s' \<or> in_run order k s' \<or> in_run order (Suc k) s')"
proof (cases ev)
  case (MapClick target)
  obtain s1 where "handleMapClick COUNTIES inp s target s = Inr s1"
    "\<not> isTestMode s1 \<or>
      (isTestMode s1 = isTestMode s \<and> testQueue s1 = testQueue s \<and>
       currentCounty s1 = currentCounty s \<and> testResult s1 = testResult s)"
    using handleMapClick_run [OF assms(1)] by blast
  then show ?thesis using MapClick assms(2)
    by (auto simp: dispatch_def handle_event_def in_run_def)
next
  case ShowOrNext
  obtain s1 where "handleShowOrNext COUNTIES inp s s = Inr s1"
     "\<not> isTestMode s1 \<or> in_run order k s1 \<or> in_run order (Suc k) s1"
    using handleShowOrNext_run [OF assms(1,2)] by blast
  then show ?thesis using ShowOrNext
    by (auto simp: dispatch_def handle_event_def)
next
  case TestButton
  then show ?thesis using assms by simp
next
  case CloseTestResult
  then show ?thesis using assms(2) by (simp add: dispatch_def handle_event_def in_run_def)
next
  case TestAgain
  then show ?thesis using assms by simp
next
  case OpenStats
  then show ?thesis using assms(2)
    by (simp add: dispatch_def handle_event_def in_run_def openStats_def)
next
  case CloseStats
  then show ?thesis using assms(2)
    by (simp add: dispatch_def handle_event_def in_run_def closeStats_def Let_def)
next
  case PopState
  then show ?thesis using assms(2)
    by (simp add: dispatch_def handle_event_def in_run_def handlePop_def closeStats_def Let_def)
qed

lemma dispatch_outside_run:
  assumes "COUNTIES \<noteq> []" and "\<not> isTestMode s" and "ev \<noteq> TestButton" and "ev \<noteq> TestAgain"
  shows "\<exists>s'. dispatch COUNTIES inp ev s = Inr s' \<and> \<not> isTestMode s'"
proof (cases ev)
  case (MapClick target)
  obtain s1 where "handleMapClick COUNTIES inp s target s = Inr s1"
    "\<not> isTestMode s1 \<or>
      (isTestMode s1 = isTestMode s \<and> testQueue s1 = testQueue s \<and>
       currentCounty s1 = currentCounty s \<and> testResult s1 = testResult s)"
    using handleMapClick_run [OF assms(1)] by blast
  then show ?thesis using MapClick assms(2)
    by (auto simp: dispatch_def handle_event_def)
next
  case ShowOrNext
  obtain s1 where "set_state_advance COUNTIES (random_pick inp) (clearHighlights s) = Inr s1"
     "isTestMode s1 = isTestMode (clearHighlights s)"
    using set_state_advance_total [OF assms(1), of "clearHighlights s" "random_pick inp"]
    by auto
  then show ?thesis using ShowOrNext assms(2)
    by (auto simp: dispatch_def handle_event_def handleShowOrNext_def Let_def getCountyPath_def
        split: option.splits)
next
  case TestButton
  then show ?thesis using assms by simp
next
  case CloseTestResult
  then show ?thesis using assms(2)
    by (simp add: dispatch_def handle_event_def closeTestResult_def)
next
  case TestAgain
  then show ?thesis using assms by simp
next
  case OpenStats
  then show ?thesis using assms(2)
    by (simp add: dispatch_def handle_event_def openStats_def)
next
  case CloseStats
  then show ?thesis using assms(2)
    by (simp add: dispatch_def handle_event_def closeStats_def Let_def)
next
  case PopState
  then show ?thesis using assms(2)
    by (simp add: dispatch_def handle_event_def handlePop_def closeStats_def Let_def)
qed

lemma run_outside_run:
  assumes "COUNTIES \<noteq> []" and "run_events evs"
  shows "\<not> isTestMode s \<Longrightarrow> \<exists>s'. run COUNTIES evs s = Inr s' \<and> \<not> isTestMode s'"
  using assms(2)
proof (induction evs arbitrary: s)
  case Nil
  then show ?case by simp
next
  case (Cons e evs)
  obtain ev inp where e: "e = (ev, inp)" by (cases e)
  have ok: "ev \<noteq> TestButton" "ev \<noteq> TestAgain" "run_events evs"
    using Cons.prems(2) e by (simp_all add: run_events_def)
  obtain s1 where s1: "dispatch COUNTIES inp ev s = Inr s1" "\<not> isTestMode s1"
    using dispatch_outside_run [OF assms(1) Cons.prems(1) ok(1,2)] by blast
  show ?case using Cons.IH [OF s1(2) ok(3)] s1(1) e by simp
qed

lemma run_in_run:
  assumes "COUNTIES \<noteq> []" and "run_events evs"
  shows "in_run order k s \<Longrightarrow>
     \<exists>s'. run COUNTIES evs s = Inr s' \<and>
       (isTestMode s' \<longrightarrow>
          (\<exists>k'. k \<le> k' \<and> in_run order k' s' \<and>
                set (run_prompts COUNTIES evs s) = (\<lambda>j. order ! j) ` {k..k'}))"
  using assms(2)
proof (induction evs arbitrary: k s)
  case Nil
  then show ?case by (auto simp: in_run_def)
next
  case (Cons e evs)
  obtain ev inp where e: "e = (ev, inp)" by (cases e)
  have ok: "ev \<noteq> TestButton" "ev \<noteq> TestAgain" "run_events evs"
    using Cons.prems(2) e by (simp_all add: run_events_def)
  have cur: "currentCounty s = order ! k" using Cons.prems(1) by (simp add: in_run_def)
  obtain s1 where s1: "dispatch COUNTIES inp ev s = Inr s1"
    "\<not> isTestMode s1 \<or> in_run order k s1 \<or> in_run order (Suc k) s1"
    using dispatch_in_run [OF assms(1) Cons.prems(1) ok(1,2)] by blast
  have unfold_run: "run COUNTIES (e # evs) s = run COUNTIES evs s1"
    "run_prompts COUNTIES (e # evs) s = order ! k # run_prompts COUNTIES evs s1"
    using s1(1) e cur by simp_all
  consider (ended) "\<not> isTestMode s1" | (same) "in_run order k s1" | (advanced) "in_run order (Suc k) s1"
    using s1(2) by blast
  then show ?case
  proof cases
    case ended
    then show ?thesis
      using run_outside_run [OF assms(1) ok(3)] unfold_run by fastforce
  next
    case same
    obtain s' where s': "run COUNTIES evs s1 = Inr s'"
      "isTestMode s' \<longrightarrow>
          (\<exists>k'. k \<le> k' \<and> in_run order k' s' \<and>
                set (run_prompts COUNTIES evs s1) = (\<lambda>j. order ! j) ` {k..k'})"
      using Cons.IH [OF same ok(3)] by blast
    have "isTestMode s' \<longrightarrow>
          (\<exists>k'. k \<le> k' \<and> in_run order k' s' \<and>
                set (run_prompts COUNTIES (e # evs) s) = (\<lambda>j. order ! j) ` {k..k'})"
    proof
      assume "isTestMode s'"
      then obtain k' where k': "k \<le> k'" "in_run order k' s'"
        "set (run_prompts COUNTIES evs s1) = (\<lambda>j. order ! j) ` {k..k'}"
        using s'(2) by blast
      have "insert (order ! k) ((\<lambda>j. order ! j) ` {k..k'}) = (\<lambda>j. order ! j) ` {k..k'}"
        using k'(1) by auto
      then show "\<exists>k'. k \<le> k' \<and> in_run order k' s' \<and>
                set (run_prompts COUNTIES (e # evs) s) = (\<lambda>j. order ! j) ` {k..k'}"
        using k' unfold_run(2) by auto
    qed
    then show ?thesis using s'(1) unfold_run(1) by simp
  next
    case advanced
    obtain s' where s': "run COUNTIES evs s1 = Inr s'"
      "isTestMode s' \<longrightarrow>
          (\<exists>k'. Suc k \<le> k' \<and> in_run order k' s' \<and>
                set (run_prompts COUNTIES evs s1) = (\<lambda>j. order ! j) ` {Suc k..k'})"
      using Cons.IH [OF advanced ok(3)] by blast
    have "isTestMode s' \<longrightarrow>
          (\<exists>k'. k \<le> k' \<and> in_run order k' s' \<and>
                set (run_prompts COUNTIES (e # evs) s) = (\<lambda>j. order ! j) ` {k..k'})"
    proof
      assume "isTestMode s'"
      then obtain k' where k': "Suc k \<le> k'" "in_run order k' s'"
        "set (run_prompts COUNTIES evs s1) = (\<lambda>j. order ! j) ` {Suc k..k'}"
        using s'(2) by blast
      have "insert k {Suc k..k'} = {k..k'}" using k'(1) by auto
      then have "insert (order ! k) ((\<lambda>j. order ! j) ` {Suc k..k'}) = (\<lambda>j. order ! j) ` {k..k'}"
        by (metis image_insert)
      then have "k \<le> k' \<and> in_run order k' s' \<and>
                set (run_prompts COUNTIES (e # evs) s) = (\<lambda>j. order ! j) ` {k..k'}"
        using k' unfold_run(2) by simp
      then show "\<exists>k'. k \<le> k' \<and> in_run order k' s' \<and>
                set (run_prompts COUNTIES (e # evs) s) = (\<lambda>j. order ! j) ` {k..k'}"
        by blast
    qed
    then show ?thesis using s'(1) unfold_run(1) by simp
  qed
qed

lemma start_in_run:
  assumes "COUNTIES \<noteq> []"
    and "(ev = TestButton \<and> \<not> isTestMode s) \<or> (ev = TestAgain \<and> testResult s \<noteq> None)"
  shows "\<exists>s0. dispatch COUNTIES inp ev s = Inr s0 \<and>
     in_run (shuffle (random_shuffle inp) COUNTIES) 0 s0"
proof -
  have len: "shuffle (random_shuffle inp) COUNTIES \<noteq> []"
    using assms(1) shuffle_length [of "random_shuffle inp" COUNTIES] by fastforce
  have start: "in_run (shuffle (random_shuffle inp) COUNTIES) 0 (startTestMode COUNTIES inp snap s1)"
    for snap s1
    using len
    by (simp add: startTestMode_def Let_def in_run_def set_state_apply_def applyNextCounty_def)
  show ?thesis using assms(2) start
    by (auto simp: dispatch_def handle_event_def handleTestButton_def)
qed

text \<open>
  Claim C4, as stated, has the queue hold the regions not yet presented. Starting a test
  from \<open>quiz_example\<close> presents Essex, the first region of the shuffled catalog, and
  the queue still holds it: the queue is Essex, Kent, where the claim has Kent alone.
\<close>

theorem test_queue_counterexample:
  "outcome (dispatch example_catalog example_inputs TestButton quiz_example)
      (run_prompts example_catalog []) = Some [''Essex''] \<and>
   outcome (dispatch example_catalog example_inputs TestButton quiz_example) (entry_of ''Essex'')
      = Some \<lparr>seen = 1, correct = 0, wrong = 0\<rparr> \<and>
   outcome (dispatch example_catalog example_inputs TestButton quiz_example) testQueue
      = Some [''Essex'', ''Kent''] \<and>
   queue_as_claimed (shuffle (random_shuffle example_inputs) example_catalog) [''Essex'']
      = [''Kent'']"
  by (simp add: eval_defs queue_as_claimed_def)

text \<open>
  Claim C4, amended. A test run starts with the test button outside a run or with "Test
  again" in the summary dialog, over a non-empty catalog, and goes on through any
  events that neither cancel nor restart it; no handler fails. The start order has the
  length of the catalog and is a permutation of it when the random draws lie in
  \<open>[0, 1)\<close>. While the run lasts, the queue is the rest of the start order from some
  position \<open>k\<close> on: it begins with the current prompt, which has been presented, and
  goes on with the regions not yet presented, in the start order. The regions presented
  so far are the first \<open>k + 1\<close> of the start order, and the number of completed items,
  the size of the catalog minus the length of the queue, is \<open>k\<close>.
\<close>

theorem test_run_queue:
  assumes "COUNTIES \<noteq> []"
    and "(ev = TestButton \<and> \<not> isTestMode s) \<or> (ev = TestAgain \<and> testResult s \<noteq> None)"
    and "run_events evs"
    and "order = shuffle (random_shuffle inp) COUNTIES"
  shows "\<exists>s0 s'. dispatch COUNTIES inp ev s = Inr s0 \<and> run COUNTIES evs s0 = Inr s' \<and>
     length order = length COUNTIES \<and>
     ((\<forall>j. unit_draw (random_shuffle inp j)) \<longrightarrow> mset order = mset COUNTIES) \<and>
     (isTestMode s' \<longrightarrow>
        (\<exists>k < length COUNTIES.
           testQueue s' = drop k order \<and>
           currentCounty s' = order ! k \<and>
           set (run_prompts COUNTIES evs s0) = set (take (Suc k) order) \<and>
           completedTestCount COUNTIES s' = int k))"
proof -
  have len: "length order = length COUNTIES" using assms(4) by (simp add: shuffle_length)
  obtain s0 where s0: "dispatch COUNTIES inp ev s = Inr s0" "in_run order 0 s0"
    using start_in_run [OF assms(1,2)] assms(4) by blast
  obtain s' where s': "run COUNTIES evs s0 = Inr s'"
    "isTestMode s' \<longrightarrow>
          (\<exists>k'. 0 \<le> k' \<and> in_run order k' s' \<and>
                set (run_prompts COUNTIES evs s0) = (\<lambda>j. order ! j) ` {0..k'})"
    using run_in_run [OF assms(1,3) s0(2)] by blast
  have "isTestMode s' \<longrightarrow>
        (\<exists>k < length COUNTIES.
           testQueue s' = drop k order \<and>
           currentCounty s' = order ! k \<and>
           set (run_prompts COUNTIES evs s0) = set (take (Suc k) order) \<and>
           completedTestCount COUNTIES s' = int k)"
  proof
    assume "isTestMode s'"
    then obtain k where k: "in_run order k s'"
      "set (run_prompts COUNTIES evs s0) = (\<lambda>j. order ! j) ` {0..k}"
      using s'(2) by blast
    have kl: "k < length order" using k(1) by (simp add: in_run_def)
    have "(\<lambda>j. order ! j) ` {0..<Suc k} = set (take (Suc k) order)"
      using kl nth_image [of "Suc k" order] by simp
    then have pr: "set (run_prompts COUNTIES evs s0) = set (take (Suc k) order)"
      using k(2) by (simp add: atLeastLessThanSuc_atLeastAtMost)
    have "completedTestCount COUNTIES s' = int k"
      using k(1) kl len by (simp add: completedTestCount_def in_run_def)
    then show "\<exists>k < length COUNTIES.
           testQueue s' = drop k order \<and>
           currentCounty s' = order ! k \<and>
           set (run_prompts COUNTIES evs s0) = set (take (Suc k) order) \<and>
           completedTestCount COUNTIES s' = int k"
      using k(1) kl len pr by (auto simp: in_run_def)
  qed
  moreover have "(\<forall>j. unit_draw (random_shuffle inp j)) \<longrightarrow> mset order = mset COUNTIES"
    using shuffle_mset assms(4) by blast
  ultimately show ?thesis using s0(1) s'(1) len by blast
qed

theorem test_run_queue_witness:
  "run_events [(MapClick (Some ''Essex''), example_inputs), (ShowOrNext, example_inputs)] \<and>
   outcome (run example_catalog
      [(TestButton, example_inputs), (MapClick (Some ''Essex''), example_inputs),
       (ShowOrNext, example_inputs)] quiz_example) isTestMode = Some True \<and>
   outcome (run example_catalog
      [(TestButton, example_inputs), (MapClick (Some ''Essex''), example_inputs),
       (ShowOrNext, example_inputs)] quiz_example) testQueue = Some [''Kent''] \<and>
   outcome (run example_catalog
      [(TestButton, example_inputs), (MapClick (Some ''Essex''), example_inputs),
       (ShowOrNext, example_inputs)] quiz_example) currentCounty = Some ''Kent'' \<and>
   outcome (run example_catalog
      [(TestButton, example_inputs), (MapClick (Some ''Essex''), example_inputs),
       (ShowOrNext, example_inputs)] quiz_example) (completedTestCount example_catalog) = Some 1"
  using test_run_queue [of example_catalog TestButton quiz_example
      "[(MapClick (Some ''Essex''), example_inputs), (ShowOrNext, example_inputs)]"
      "shuffle (random_shuffle example_inputs) example_catalog" example_inputs]
  by (simp add: eval_defs run_events_def completedTestCount_def)

end
